theory Spec2Isabelle
  imports Complex_Main
begin

section \<open>Python strings\<close>

text \<open>
  A Python \<open>str\<close> is a sequence of Unicode code points; \<open>len\<close> counts code points.
  A string is modelled as the list of its code points, so that \<open>length\<close> is \<open>len\<close>.
  \<open>py\<close> turns an ASCII literal into that list.
\<close>

type_synonym pystr = "nat list"

definition py :: "string \<Rightarrow> pystr" where
  "py s = map of_char s"

text \<open>
  \<open>str.isspace\<close> on one character; \<open>str.strip()\<close> and the regular expression class
  \<open>\s\<close> on \<open>str\<close> patterns use the same predicate.
\<close>

definition isspace :: "nat \<Rightarrow> bool" where
  "isspace c \<longleftrightarrow>
     (9 \<le> c \<and> c \<le> 13) \<or> (28 \<le> c \<and> c \<le> 32) \<or> c = 133 \<or> c = 160 \<or> c = 5760 \<or>
     (8192 \<le> c \<and> c \<le> 8202) \<or> c = 8232 \<or> c = 8233 \<or> c = 8239 \<or> c = 8287 \<or> c = 12288"

definition is_upper :: "nat \<Rightarrow> bool" where
  "is_upper c \<longleftrightarrow> 65 \<le> c \<and> c \<le> 90"

definition is_lower :: "nat \<Rightarrow> bool" where
  "is_lower c \<longleftrightarrow> 97 \<le> c \<and> c \<le> 122"

definition is_digit :: "nat \<Rightarrow> bool" where
  "is_digit c \<longleftrightarrow> 48 \<le> c \<and> c \<le> 57"

definition is_letter :: "nat \<Rightarrow> bool" where
  "is_letter c \<longleftrightarrow> is_upper c \<or> is_lower c"

text \<open>\<open>s.strip()\<close>, \<open>s.strip(chars)\<close> and \<open>s.lstrip(chars)\<close>.\<close>

definition strip :: "pystr \<Rightarrow> pystr" where
  "strip s = rev (dropWhile isspace (rev (dropWhile isspace s)))"

definition strip_chars :: "pystr \<Rightarrow> pystr \<Rightarrow> pystr" where
  "strip_chars chars s =
     rev (dropWhile (\<lambda>c. c \<in> set chars) (rev (dropWhile (\<lambda>c. c \<in> set chars) s)))"

definition lstrip_chars :: "pystr \<Rightarrow> pystr \<Rightarrow> pystr" where
  "lstrip_chars chars s = dropWhile (\<lambda>c. c \<in> set chars) s"

text \<open>\<open>s.startswith(p)\<close> and \<open>sub in s\<close>.\<close>

fun startswith :: "pystr \<Rightarrow> pystr \<Rightarrow> bool" where
  "startswith s [] = True"
| "startswith [] (p # ps) = False"
| "startswith (c # cs) (p # ps) = (c = p \<and> startswith cs ps)"

fun contains :: "pystr \<Rightarrow> pystr \<Rightarrow> bool" where
  "contains sub [] = (sub = [])"
| "contains sub (c # cs) = (startswith (c # cs) sub \<or> contains sub cs)"

text \<open>
  \<open>s.replace(old, new)\<close> replaces the non-overlapping occurrences of \<open>old\<close> from left
  to right; with an empty \<open>old\<close> Python inserts \<open>new\<close> around every character.
  \<open>s.replace(old, new, 1)\<close> replaces the first occurrence only.
\<close>

fun replace :: "pystr \<Rightarrow> pystr \<Rightarrow> pystr \<Rightarrow> pystr" where
  "replace [] new s = new @ concat (map (\<lambda>c. c # new) s)"
| "replace (p # ps) new [] = []"
| "replace (p # ps) new (c # cs) =
     (if startswith (c # cs) (p # ps) then new @ replace (p # ps) new (drop (length ps) cs)
      else c # replace (p # ps) new cs)"

fun replace_first :: "pystr \<Rightarrow> pystr \<Rightarrow> pystr \<Rightarrow> pystr" where
  "replace_first old new [] = (if old = [] then new else [])"
| "replace_first old new (c # cs) =
     (if startswith (c # cs) old then new @ drop (length old) (c # cs)
      else c # replace_first old new cs)"

text \<open>\<open>s.split(sep)\<close> for a one-character separator.\<close>

fun split_on :: "nat \<Rightarrow> pystr \<Rightarrow> pystr list" where
  "split_on sep [] = [[]]"
| "split_on sep (c # cs) =
     (if c = sep then [] # split_on sep cs
      else (case split_on sep cs of [] \<Rightarrow> [[c]] | l # ls \<Rightarrow> (c # l) # ls))"

section \<open>The regular expressions of the extractor\<close>

text \<open>
  \<open>re.findall(r"\$([^$]+)\$", text)\<close>: the non-overlapping matches from left to right,
  each a dollar sign, a non-empty maximal run of other characters and a dollar sign;
  the result lists the runs. A negated class also matches a newline.
\<close>

function findall_math :: "pystr \<Rightarrow> pystr list" where
  "findall_math [] = []"
| "findall_math (c # cs) =
     (if c = 36 \<and> takeWhile (\<lambda>x. x \<noteq> 36) cs \<noteq> [] \<and> dropWhile (\<lambda>x. x \<noteq> 36) cs \<noteq> []
      then takeWhile (\<lambda>x. x \<noteq> 36) cs # findall_math (tl (dropWhile (\<lambda>x. x \<noteq> 36) cs))
      else findall_math cs)"
  by pat_completeness auto
termination
proof (relation "measure length")
  fix c :: nat and cs :: pystr
  have "length (dropWhile (\<lambda>x. x \<noteq> 36) cs) \<le> length cs"
    by (rule length_dropWhile_le)
  then show "(tl (dropWhile (\<lambda>x. x \<noteq> 36) cs), c # cs) \<in> measure length"
    by simp
qed simp_all

text \<open>\<open>max(chunks, key=len)\<close> on a non-empty list: the first element of greatest length.\<close>

fun max_by_len :: "pystr \<Rightarrow> pystr list \<Rightarrow> pystr" where
  "max_by_len best [] = best"
| "max_by_len best (x # xs) = max_by_len (if length best < length x then x else best) xs"

text \<open>\<open>re.sub(r"\\[a-zA-Z]+", "", text)\<close>: a backslash and the letters after it, at least one.\<close>

function remove_latex_commands :: "pystr \<Rightarrow> pystr" where
  "remove_latex_commands [] = []"
| "remove_latex_commands (c # cs) =
     (if c = 92 \<and> takeWhile is_letter cs \<noteq> []
      then remove_latex_commands (dropWhile is_letter cs)
      else c # remove_latex_commands cs)"
  by pat_completeness auto
termination
proof (relation "measure length")
  fix c :: nat and cs :: pystr
  have "length (dropWhile is_letter cs) \<le> length cs"
    by (rule length_dropWhile_le)
  then show "(dropWhile is_letter cs, c # cs) \<in> measure length"
    by simp
qed simp_all

text \<open>
  \<open>re.sub(r"_\{([^}]+)\}", r"\1", text)\<close>: an underscore, an opening brace, a non-empty
  maximal run of characters other than the closing brace, and the closing brace, replaced
  by the run. The replacement is not scanned again.
\<close>

function sub_braced_subscript :: "pystr \<Rightarrow> pystr" where
  "sub_braced_subscript [] = []"
| "sub_braced_subscript [c] = [c]"
| "sub_braced_subscript (c # b # bs) =
     (if c = 95 \<and> b = 123 \<and> takeWhile (\<lambda>x. x \<noteq> 125) bs \<noteq> [] \<and> dropWhile (\<lambda>x. x \<noteq> 125) bs \<noteq> []
      then takeWhile (\<lambda>x. x \<noteq> 125) bs @ sub_braced_subscript (tl (dropWhile (\<lambda>x. x \<noteq> 125) bs))
      else c # sub_braced_subscript (b # bs))"
  by pat_completeness auto
termination
proof (relation "measure length")
  fix c b :: nat and bs :: pystr
  have "length (dropWhile (\<lambda>x. x \<noteq> 125) bs) \<le> length bs"
    by (rule length_dropWhile_le)
  then show "(tl (dropWhile (\<lambda>x. x \<noteq> 125) bs), c # b # bs) \<in> measure length"
    by simp
qed simp_all

text \<open>
  \<open>re.sub(r"_([0-9]+(?:\.[0-9]+)?)", r"\1", text)\<close>: an underscore, digits, and
  optionally a dot with digits after it, replaced by the number.
\<close>

function sub_numeric_subscript :: "pystr \<Rightarrow> pystr" where
  "sub_numeric_subscript [] = []"
| "sub_numeric_subscript (c # cs) =
     (if c = 95 \<and> takeWhile is_digit cs \<noteq> [] then
        (case dropWhile is_digit cs of
           [] \<Rightarrow> takeWhile is_digit cs
         | d # r \<Rightarrow>
             if d = 46 \<and> takeWhile is_digit r \<noteq> []
             then takeWhile is_digit cs @ [46] @ takeWhile is_digit r
                    @ sub_numeric_subscript (dropWhile is_digit r)
             else takeWhile is_digit cs @ sub_numeric_subscript (d # r))
      else c # sub_numeric_subscript cs)"
  by pat_completeness auto
termination
proof (relation "measure length")
  fix c d :: nat and cs r :: pystr
  assume eq: "dropWhile is_digit cs = d # r"
  have le: "length (dropWhile is_digit cs) \<le> length cs"
    by (rule length_dropWhile_le)
  with eq show "(d # r, c # cs) \<in> measure length"
    by simp
  have "length (dropWhile is_digit r) \<le> length r"
    by (rule length_dropWhile_le)
  with eq le show "(dropWhile is_digit r, c # cs) \<in> measure length"
    by simp
qed simp_all

text \<open>
  The characters kept by \<open>re.sub(r"[^A-Za-z0-9\.\(\)\[\]/\<cdot>]", "", text)\<close>: letters, digits,
  dot, parentheses, square brackets, slash and the middle dot U+00B7.
\<close>

definition formula_char :: "nat \<Rightarrow> bool" where
  "formula_char c \<longleftrightarrow>
     is_upper c \<or> is_lower c \<or> is_digit c \<or> c = 46 \<or> c = 40 \<or> c = 41 \<or> c = 91 \<or> c = 93 \<or>
     c = 47 \<or> c = 183"

text \<open>
  \<open>re.findall(r"[A-Z][a-z]?", candidate)\<close>: an uppercase letter with the lowercase
  letter after it, if there is one.
\<close>

fun findall_elements :: "pystr \<Rightarrow> pystr list" where
  "findall_elements [] = []"
| "findall_elements [c] = (if is_upper c then [[c]] else [])"
| "findall_elements (c # d # ds) =
     (if is_upper c then
        (if is_lower d then [c, d] # findall_elements ds else [c] # findall_elements (d # ds))
      else findall_elements (d # ds))"

text \<open>
  \<open>re.search(r"\breasoning\b", line, flags=re.IGNORECASE)\<close>.
  \<open>word_char\<close> is the class \<open>\w\<close>: ASCII letters, digits and the underscore, and beyond
  ASCII what the Unicode database calls alphanumeric, the parameter \<open>uni\<close>.
  \<open>ci_match p c\<close>: the character \<open>c\<close> matches the lowercase letter \<open>p\<close> of the pattern
  when case is ignored; beyond the two ASCII cases, U+017F matches s, and U+0130 and
  U+0131 match i.
\<close>

definition word_char :: "(nat \<Rightarrow> bool) \<Rightarrow> nat \<Rightarrow> bool" where
  "word_char uni c \<longleftrightarrow> (if c < 128 then is_letter c \<or> is_digit c \<or> c = 95 else uni c)"

definition word_boundary :: "(nat \<Rightarrow> bool) \<Rightarrow> nat option \<Rightarrow> nat option \<Rightarrow> bool" where
  "word_boundary uni prev nxt \<longleftrightarrow>
     (case prev of None \<Rightarrow> False | Some c \<Rightarrow> word_char uni c)
       \<noteq> (case nxt of None \<Rightarrow> False | Some c \<Rightarrow> word_char uni c)"

definition ci_match :: "nat \<Rightarrow> nat \<Rightarrow> bool" where
  "ci_match p c \<longleftrightarrow>
     c = p \<or> c + 32 = p \<or> (p = 115 \<and> c = 383) \<or> (p = 105 \<and> (c = 304 \<or> c = 305))"

fun ci_startswith :: "pystr \<Rightarrow> pystr \<Rightarrow> bool" where
  "ci_startswith s [] = True"
| "ci_startswith [] (p # ps) = False"
| "ci_startswith (c # cs) (p # ps) = (ci_match p c \<and> ci_startswith cs ps)"

definition reasoning_at :: "(nat \<Rightarrow> bool) \<Rightarrow> nat option \<Rightarrow> pystr \<Rightarrow> bool" where
  "reasoning_at uni prev s \<longleftrightarrow>
     ci_startswith s (py ''reasoning'') \<and>
     word_boundary uni prev (Some (hd s)) \<and>
     word_boundary uni (Some (s ! 8)) (if 9 < length s then Some (s ! 9) else None)"

fun search_reasoning_from :: "(nat \<Rightarrow> bool) \<Rightarrow> nat option \<Rightarrow> pystr \<Rightarrow> bool" where
  "search_reasoning_from uni prev [] = False"
| "search_reasoning_from uni prev (c # cs) =
     (reasoning_at uni prev (c # cs) \<or> search_reasoning_from uni (Some c) cs)"

definition search_reasoning :: "(nat \<Rightarrow> bool) \<Rightarrow> pystr \<Rightarrow> bool" where
  "search_reasoning uni line = search_reasoning_from uni None line"

section \<open>Normalisation and extraction (LLM\_agent.py)\<close>

text \<open>
  \<open>_clean_formula_candidate\<close>. The argument is always a string here, so \<open>text or ""\<close>
  is the text. If the text has a dollar sign, the longest \<open>$...$\<close> chunk replaces it,
  or the dollar signs are removed when there is no chunk.
\<close>

definition prefer_math_chunk :: "pystr \<Rightarrow> pystr" where
  "prefer_math_chunk text =
     (if contains [36] text then
        (case findall_math text of
           [] \<Rightarrow> replace [36] [] text
         | ch # chs \<Rightarrow> max_by_len ch chs)
      else text)"

definition clean_formula_candidate :: "pystr \<Rightarrow> pystr" where
  "clean_formula_candidate text0 =
     (let text = strip text0 in
      if text = [] then []
      else
        let text = strip (strip_chars [96] (replace [95, 95] [] (replace [42, 42] [] text)));
            text = prefer_math_chunk text;
            text = replace (92 # py ''cdot'') [183] text;
            text = remove_latex_commands text;
            text = sub_braced_subscript text;
            text = sub_numeric_subscript text;
            text = replace [125] [] (replace [123] [] text);
            text = filter (\<lambda>c. \<not> isspace c) text;
            text = filter formula_char text
        in text)"

text \<open>
  \<open>parse\<close>: the body of the inner loop over the segments of one bullet, the body of the
  outer loop over the lines, and the function. \<open>record\<close> is the list being built.
  The text is a string, so \<open>raw_text or ""\<close> is the text; the history is a list, and
  membership in it is what \<open>in\<close> tests.
\<close>

definition parse_segment :: "pystr list \<Rightarrow> pystr list \<Rightarrow> pystr \<Rightarrow> pystr list" where
  "parse_segment history_battery_list record seg =
     (let candidate = clean_formula_candidate seg in
      if candidate = [] then record
      else if \<not> contains (py ''Li'') candidate \<and> \<not> contains (py ''Na'') candidate then record
      else if length (findall_elements candidate) < 2 then record
      else if candidate \<in> set history_battery_list then record
      else if candidate \<notin> set record then record @ [candidate]
      else record)"

definition parse_line :: "(nat \<Rightarrow> bool) \<Rightarrow> pystr list \<Rightarrow> pystr list \<Rightarrow> pystr \<Rightarrow> pystr list" where
  "parse_line uni history_battery_list record line0 =
     (let line = strip line0 in
      if line = [] then record
      else
        let line = (if startswith line (py ''Assistant:'')
                    then strip (replace_first (py ''Assistant:'') [] line) else line)
        in
        if \<not> startswith line [42] then record
        else if search_reasoning uni line then record
        else
          let body = strip (lstrip_chars [42] line) in
          if body = [] then record
          else
            let segments = findall_math body;
                segments = (if segments = [] then [body] else segments)
            in foldl (parse_segment history_battery_list) record segments)"

definition parse :: "(nat \<Rightarrow> bool) \<Rightarrow> pystr \<Rightarrow> pystr list \<Rightarrow> pystr list" where
  "parse uni raw_text history_battery_list =
     foldl (parse_line uni history_battery_list) [] (split_on 10 (strip raw_text))"

section \<open>The model client and the generation loop (LLM\_agent.py)\<close>

text \<open>
  \<open>os.getenv\<close> reads the environment, a map from names to values. \<open>a or b\<close> on
  strings that may be \<open>None\<close> is the first operand when it is a non-empty string and the
  second otherwise. The \<open>openai\<close> module holds the endpoint and the key.
\<close>

type_synonym environ = "pystr \<Rightarrow> pystr option"

definition truthy :: "pystr option \<Rightarrow> bool" where
  "truthy v \<longleftrightarrow> (case v of None \<Rightarrow> False | Some s \<Rightarrow> s \<noteq> [])"

definition py_or :: "pystr option \<Rightarrow> pystr option \<Rightarrow> pystr option" where
  "py_or a b = (if truthy a then a else b)"

definition rstrip_chars :: "pystr \<Rightarrow> pystr \<Rightarrow> pystr" where
  "rstrip_chars chars s = rev (dropWhile (\<lambda>c. c \<in> set chars) (rev s))"

definition endswith :: "pystr \<Rightarrow> pystr \<Rightarrow> bool" where
  "endswith s suffix \<longleftrightarrow> startswith (rev s) (rev suffix)"

record openai_client =
  api_base :: pystr
  api_key :: "pystr option"

definition OPENROUTER_API_BASE :: pystr where
  "OPENROUTER_API_BASE = py ''https://openrouter.ai/api/v1''"

definition configure_openai_client :: "environ \<Rightarrow> openai_client \<Rightarrow> openai_client" where
  "configure_openai_client getenv openai =
     (let base = py_or (getenv (py ''OPENAI_API_BASE''))
                   (py_or (getenv (py ''OPENAI_BASE_URL''))
                     (py_or (getenv (py ''OPENROUTER_API_BASE''))
                       (getenv (py ''OPENROUTER_BASE_URL''))));
          openai =
            (if truthy base then openai\<lparr>api_base := rstrip_chars [47] (the base)\<rparr>
             else if truthy (getenv (py ''OPENROUTER_API_KEY''))
             then openai\<lparr>api_base := OPENROUTER_API_BASE\<rparr>
             else openai)
      in
        if truthy (getenv (py ''OPENROUTER_API_KEY'')) \<and> \<not> truthy (getenv (py ''OPENAI_API_KEY''))
        then openai\<lparr>api_key := getenv (py ''OPENROUTER_API_KEY'')\<rparr>
        else openai)"

definition is_openrouter_base :: "pystr \<Rightarrow> bool" where
  "is_openrouter_base base = contains (py ''openrouter.ai'') base"

definition normalize_model_for_api :: "environ \<Rightarrow> openai_client \<Rightarrow> pystr \<Rightarrow> pystr" where
  "normalize_model_for_api getenv openai model =
     (if is_openrouter_base (api_base openai) \<and> \<not> contains [47] model then
        (let prefix = strip (case getenv (py ''CHATBATTERY_OPENROUTER_MODEL_PREFIX'') of
                               None \<Rightarrow> py ''openai/'' | Some v \<Rightarrow> v);
             prefix = (if prefix \<noteq> [] \<and> \<not> endswith prefix [47] then prefix @ [47] else prefix)
         in prefix @ model)
      else model)"

text \<open>
  A message of the conversation, and the keyword arguments of one call of
  \<open>openai.ChatCompletion.create\<close>; \<open>n\<close> is always \<open>None\<close> and is left out.
\<close>

record message =
  role :: pystr
  content :: pystr

record request =
  req_model :: pystr
  req_messages :: "message list"
  req_temperature :: real
  req_frequency_penalty :: "real option"

definition chat_request :: "pystr \<Rightarrow> pystr \<Rightarrow> message list \<Rightarrow> real \<Rightarrow> request" where
  "chat_request model api_model msgs temperature =
     (if model = py ''chatgpt_3.5''
      then \<lparr>req_model = api_model, req_messages = msgs, req_temperature = temperature,
            req_frequency_penalty = Some (2 / 10)\<rparr>
      else \<lparr>req_model = api_model, req_messages = msgs, req_temperature = temperature,
            req_frequency_penalty = None\<rparr>)"

text \<open>
  The model call is a collaborator: the \<open>k\<close>-th call (from 0) with a request either raises
  or gives the text \<open>response["choices"][0]["message"]["content"]\<close>.
\<close>

datatype completion = Fault | Content pystr

type_synonym llm = "nat \<Rightarrow> request \<Rightarrow> completion"

text \<open>
  \<open>"Please do not generate batteries in this list {}.".format(l)\<close> prints the list as Python
  does: the items in single quotes, separated by a comma and a space, in square brackets.
  The items are candidates, made of formula characters, which \<open>repr\<close> does not escape.
\<close>

fun join :: "pystr \<Rightarrow> pystr list \<Rightarrow> pystr" where
  "join sep [] = []"
| "join sep [x] = x"
| "join sep (x # y # ys) = x @ sep @ join sep (y # ys)"

definition list_repr :: "pystr list \<Rightarrow> pystr" where
  "list_repr l = [91] @ join (py '', '') (map (\<lambda>x. [39] @ x @ [39]) l) @ [93]"

definition exclusion_text :: "pystr list \<Rightarrow> pystr" where
  "exclusion_text l = py ''Please do not generate batteries in this list '' @ list_repr l @ [46]"

text \<open>\<open>messages[-1]["content"] += text\<close> on a non-empty conversation.\<close>

definition append_to_last :: "message list \<Rightarrow> pystr \<Rightarrow> message list" where
  "append_to_last msgs text =
     butlast msgs @ [(last msgs)\<lparr>content := content (last msgs) @ text\<rparr>]"

text \<open>
  The state of the loop of \<open>optimize_batteries_chatgpt\<close>: the conversation, which the loop
  changes in place, the history list, and the requests sent so far, in order.
  \<open>attempt\<close> is one pass through the body of \<open>while not received\<close>: the new state, and
  the pair returned when \<open>received\<close> becomes true. An exception inside \<open>try\<close> (the call
  raising, \<open>messages[-1]\<close> on an empty conversation, the failed \<open>assert\<close>) is caught and the
  loop goes on; the pause of one second is not modelled.
\<close>

record loop_state =
  messages :: "message list"
  history_battery_list :: "pystr list"
  sent :: "request list"

definition attempt ::
  "(nat \<Rightarrow> bool) \<Rightarrow> llm \<Rightarrow> pystr \<Rightarrow> pystr \<Rightarrow> real \<Rightarrow> loop_state
     \<Rightarrow> loop_state \<times> (pystr \<times> pystr list) option" where
  "attempt uni create model api_model temperature st =
     (let req = chat_request model api_model (messages st) temperature;
          st1 = st\<lparr>sent := sent st @ [req]\<rparr>
      in
        case create (length (sent st)) req of
          Fault \<Rightarrow> (st1, None)
        | Content raw_generated_text \<Rightarrow>
            (let generated_battery_list = parse uni raw_generated_text (history_battery_list st)
             in
               if length generated_battery_list = 0 then
                 (let raw_generated_battery_list = parse uni raw_generated_text [] in
                  if messages st = [] then (st1, None)
                  else (st1\<lparr>messages :=
                              append_to_last (messages st)
                                (exclusion_text raw_generated_battery_list)\<rparr>, None))
               else (st1, Some (raw_generated_text, generated_battery_list))))"

partial_function (option) while_not_received ::
  "(nat \<Rightarrow> bool) \<Rightarrow> llm \<Rightarrow> pystr \<Rightarrow> pystr \<Rightarrow> real \<Rightarrow> loop_state
     \<Rightarrow> (loop_state \<times> pystr \<times> pystr list) option" where
  "while_not_received uni create model api_model temperature st =
     (case attempt uni create model api_model temperature st of
        (st', None) \<Rightarrow> while_not_received uni create model api_model temperature st'
      | (st', Some res) \<Rightarrow> Some (st', res))"

definition initial_state :: "message list \<Rightarrow> loop_state" where
  "initial_state msgs = \<lparr>messages = msgs, history_battery_list = [], sent = []\<rparr>"

definition optimize_batteries_chatgpt ::
  "(nat \<Rightarrow> bool) \<Rightarrow> environ \<Rightarrow> openai_client \<Rightarrow> llm \<Rightarrow> message list \<Rightarrow> pystr \<Rightarrow> real
     \<Rightarrow> (loop_state \<times> pystr \<times> pystr list) option" where
  "optimize_batteries_chatgpt uni getenv openai create msgs model temperature =
     (let api_model = normalize_model_for_api getenv (configure_openai_client getenv openai) model
      in while_not_received uni create model api_model temperature (initial_state msgs))"

text \<open>
  \<open>optimize_batteries\<close>: the nicknames and the function each goes to.
  \<open>optimize_batteries_open_source\<close> runs a local model and sends no request; it is the
  parameter \<open>open_source\<close>.
\<close>

definition optimize_batteries ::
  "(nat \<Rightarrow> bool) \<Rightarrow> environ \<Rightarrow> openai_client \<Rightarrow> llm
     \<Rightarrow> (message list \<Rightarrow> (loop_state \<times> pystr \<times> pystr list) option)
     \<Rightarrow> message list \<Rightarrow> pystr \<Rightarrow> real \<Rightarrow> (loop_state \<times> pystr \<times> pystr list) option" where
  "optimize_batteries uni getenv openai create open_source msgs LLM_type temperature =
     (if LLM_type = py ''chatgpt_3.5''
      then optimize_batteries_chatgpt uni getenv openai create msgs (py ''gpt-3.5-turbo'') temperature
      else if LLM_type = py ''chatgpt_o1''
      then optimize_batteries_chatgpt uni getenv openai create msgs (py ''o1-mini'') temperature
      else if LLM_type = py ''chatgpt_o3''
      then optimize_batteries_chatgpt uni getenv openai create msgs (py ''o3-mini'') temperature
      else if LLM_type = py ''chatgpt_4o''
      then optimize_batteries_chatgpt uni getenv openai create msgs (py ''gpt-4o-mini'') temperature
      else if LLM_type = py ''llama2'' then open_source msgs
      else if LLM_type = py ''llama3'' then open_source msgs
      else if LLM_type = py ''qwen'' then open_source msgs
      else optimize_batteries_chatgpt uni getenv openai create msgs LLM_type temperature)"

text \<open>
  The state in which the loop starts its pass number \<open>k\<close> (from 0), when it gets that
  far: the initial state, and after each pass that did not return, the state it left.
\<close>

fun state_at_pass ::
  "(nat \<Rightarrow> bool) \<Rightarrow> llm \<Rightarrow> pystr \<Rightarrow> pystr \<Rightarrow> real \<Rightarrow> message list \<Rightarrow> nat
     \<Rightarrow> loop_state option" where
  "state_at_pass uni create model api_model temperature msgs 0 = Some (initial_state msgs)"
| "state_at_pass uni create model api_model temperature msgs (Suc k) =
     (case state_at_pass uni create model api_model temperature msgs k of
        None \<Rightarrow> None
      | Some st \<Rightarrow>
          (case attempt uni create model api_model temperature st of
             (st', None) \<Rightarrow> Some st'
           | (st', Some res) \<Rightarrow> None))"

section \<open>The decision engine (decision\_agent.py)\<close>

text \<open>
  A capacity is a Python float: a finite number, an infinity or not-a-number.
  \<open>capacity_gt\<close> is \<open>>\<close> on floats, false whenever an operand is not-a-number;
  \<open>times_one\<close> is \<open>x * 1\<close>, which is exact.
\<close>

datatype capacity = Finite real | PosInf | NegInf | NaN

fun capacity_gt :: "capacity \<Rightarrow> capacity \<Rightarrow> bool" where
  "capacity_gt NaN y = False"
| "capacity_gt x NaN = False"
| "capacity_gt (Finite a) (Finite b) = (b < a)"
| "capacity_gt (Finite a) PosInf = False"
| "capacity_gt (Finite a) NegInf = True"
| "capacity_gt PosInf PosInf = False"
| "capacity_gt PosInf y = True"
| "capacity_gt NegInf y = False"

fun times_one :: "capacity \<Rightarrow> capacity" where
  "times_one (Finite a) = Finite (a * 1)"
| "times_one PosInf = PosInf"
| "times_one NegInf = NegInf"
| "times_one NaN = NaN"

text \<open>
  \<open>Domain_Agent.calculate_theoretical_capacity\<close> is the chemistry oracle, a parameter:
  it returns a capacity or raises an exception of class \<open>Exception\<close>.
\<close>

datatype 'e decision_error = NotImplementedError int | Oracle_raised 'e

definition decide_one_pair ::
  "(pystr \<Rightarrow> int \<Rightarrow> 'e + capacity) \<Rightarrow> pystr \<Rightarrow> pystr \<Rightarrow> int
     \<Rightarrow> 'e decision_error + capacity \<times> capacity \<times> bool" where
  "decide_one_pair calculate_theoretical_capacity input_formula output_formula task_id =
     (if task_id \<noteq> 101 \<and> task_id \<noteq> 102 then Inl (NotImplementedError task_id)
      else
        case calculate_theoretical_capacity input_formula task_id of
          Inl e \<Rightarrow> Inl (Oracle_raised e)
        | Inr input_value \<Rightarrow>
            (case calculate_theoretical_capacity output_formula task_id of
               Inl e \<Rightarrow> Inr (input_value, NaN, False)
             | Inr output_value \<Rightarrow>
                 Inr (input_value, output_value,
                      capacity_gt output_value (times_one input_value))))"

fun decide_pairs_loop ::
  "(pystr \<Rightarrow> int \<Rightarrow> 'e + capacity) \<Rightarrow> pystr \<Rightarrow> int \<Rightarrow> (pystr \<times> capacity \<times> bool) list
     \<Rightarrow> pystr list \<Rightarrow> 'e decision_error + (pystr \<times> capacity \<times> bool) list" where
  "decide_pairs_loop calc input_formula task_id answer_list [] = Inr answer_list"
| "decide_pairs_loop calc input_formula task_id answer_list (output_formula # rest) =
     (case decide_one_pair calc input_formula output_formula task_id of
        Inl e \<Rightarrow> Inl e
      | Inr (input_value, output_value, answer) \<Rightarrow>
          decide_pairs_loop calc input_formula task_id
            (answer_list @ [(output_formula, output_value, answer)]) rest)"

definition decide_pairs ::
  "(pystr \<Rightarrow> int \<Rightarrow> 'e + capacity) \<Rightarrow> pystr \<Rightarrow> pystr list \<Rightarrow> int
     \<Rightarrow> 'e decision_error + (pystr \<times> capacity \<times> bool) list" where
  "decide_pairs calc input_formula output_formula_list task_id =
     decide_pairs_loop calc input_formula task_id [] output_formula_list"

section \<open>The remote novelty lookup (search\_agent.py)\<close>

text \<open>
  \<open>MP_search\<close> first imports the client library, outside \<open>try\<close>: \<open>importable\<close> tells
  whether that succeeds. Everything else is inside \<open>try\<close> with a bare \<open>except\<close>:
  \<open>lookup formula\<close> is what opening the client and searching does, an exception of any
  kind or the number of documents found.
\<close>

datatype search_error = ImportError

definition MP_search :: "bool \<Rightarrow> (pystr \<Rightarrow> 'e + nat) \<Rightarrow> pystr \<Rightarrow> search_error + bool" where
  "MP_search importable lookup formula =
     (if \<not> importable then Inl ImportError
      else case lookup formula of
             Inl e \<Rightarrow> Inr False
           | Inr docs \<Rightarrow> Inr (1 \<le> docs))"

section \<open>Inputs for the scenarios\<close>

text \<open>
  A Unicode table with no word character beyond ASCII, an empty environment, the default
  client, a conversation of one message, and mock models: \<open>first_then\<close> answers its
  first call with one text and every later call with another, \<open>scenario_4_model\<close> first
  answers with a formula on a line without a bullet and then with a bullet, and
  \<open>constant_model\<close> always answers with the same bullet.
\<close>

definition no_unicode_words :: "nat \<Rightarrow> bool" where
  "no_unicode_words c = False"

definition empty_environ :: environ where
  "empty_environ name = None"

definition default_client :: openai_client where
  "default_client = \<lparr>api_base = py ''https://api.openai.com/v1'', api_key = None\<rparr>"

definition one_prompt :: "message list" where
  "one_prompt = [\<lparr>role = py ''user'', content = py ''p''\<rparr>]"

definition scenario_4_model :: llm where
  "scenario_4_model k req = Content (if k = 0 then py ''LiFePO4'' else py ''* $LiCoO_2$'')"

definition first_then :: "pystr \<Rightarrow> pystr \<Rightarrow> llm" where
  "first_then r1 r2 k req = Content (if k = 0 then r1 else r2)"

definition constant_model :: llm where
  "constant_model k req = Content (py ''* $LiFePO_4$'')"

text \<open>
  A capacity function that knows two formulas and raises on any other, and a lookup that
  always raises.
\<close>

definition two_formula_capacity :: "pystr \<Rightarrow> int \<Rightarrow> unit + capacity" where
  "two_formula_capacity formula task_id =
     (if formula = py ''LiCoO2'' then Inr (Finite 274)
      else if formula = py ''LiFePO4'' then Inr (Finite 170)
      else Inl ())"

definition failing_lookup :: "pystr \<Rightarrow> unit + nat" where
  "failing_lookup formula = Inl ()"

section \<open>Properties of the records built by the extractor\<close>

text \<open>
  What the loop of \<open>parse\<close> keeps true of \<open>record\<close>: no string twice, every string with
  Li or Na in it and at least two element tokens, and none of them in the history.
\<close>

definition valid_candidate :: "pystr \<Rightarrow> bool" where
  "valid_candidate c \<longleftrightarrow>
     (contains (py ''Li'') c \<or> contains (py ''Na'') c) \<and> 2 \<le> length (findall_elements c)"

definition record_ok :: "pystr list \<Rightarrow> pystr list \<Rightarrow> bool" where
  "record_ok h record \<longleftrightarrow> distinct record \<and> (\<forall>c\<in>set record. valid_candidate c \<and> c \<notin> set h)"

section \<open>Normalisation is idempotent\<close>

lemma dropWhile_none: "\<forall>c\<in>set s. \<not> P c \<Longrightarrow> dropWhile P s = s"
  by (cases s) auto

lemma strip_no_space: "\<forall>c\<in>set s. \<not> isspace c \<Longrightarrow> strip s = s"
  by (simp add: strip_def dropWhile_none)

lemma strip_chars_absent: "\<forall>c\<in>set s. c \<notin> set chars \<Longrightarrow> strip_chars chars s = s"
  by (simp add: strip_chars_def dropWhile_none)

lemma replace_absent: "p \<notin> set s \<Longrightarrow> replace (p # ps) new s = s"
  by (induction s) auto

lemma contains_single: "contains [p] s \<longleftrightarrow> p \<in> set s"
  by (induction s) auto

lemma remove_latex_commands_absent: "92 \<notin> set s \<Longrightarrow> remove_latex_commands s = s"
  by (induction s) auto

lemma sub_braced_subscript_absent: "95 \<notin> set s \<Longrightarrow> sub_braced_subscript s = s"
  by (induction s rule: sub_braced_subscript.induct) auto

lemma sub_numeric_subscript_absent: "95 \<notin> set s \<Longrightarrow> sub_numeric_subscript s = s"
  by (induction s) auto

lemma formula_char_excludes:
  "\<not> formula_char 36" "\<not> formula_char 42" "\<not> formula_char 92" "\<not> formula_char 95"
  "\<not> formula_char 96" "\<not> formula_char 123" "\<not> formula_char 125"
  by (simp_all add: formula_char_def is_upper_def is_lower_def is_digit_def)

lemma formula_char_not_space: "formula_char c \<Longrightarrow> \<not> isspace c"
  by (auto simp: formula_char_def isspace_def is_upper_def is_lower_def is_digit_def)

lemma clean_formula_chars: "\<forall>c\<in>set (clean_formula_candidate s). formula_char c"
  by (simp add: clean_formula_candidate_def Let_def)

lemma clean_fixes_formula_strings:
  assumes "\<forall>c\<in>set s. formula_char c"
  shows "clean_formula_candidate s = s"
proof -
  have sp: "\<forall>c\<in>set s. \<not> isspace c"
    using assms formula_char_not_space by blast
  have n36: "36 \<notin> set s" using assms formula_char_excludes(1) by blast
  have n42: "42 \<notin> set s" using assms formula_char_excludes(2) by blast
  have n92: "92 \<notin> set s" using assms formula_char_excludes(3) by blast
  have n95: "95 \<notin> set s" using assms formula_char_excludes(4) by blast
  have n96: "\<forall>c\<in>set s. c \<notin> set [96]" using assms formula_char_excludes(5) by auto
  have n123: "123 \<notin> set s" using assms formula_char_excludes(6) by blast
  have n125: "125 \<notin> set s" using assms formula_char_excludes(7) by blast
  have f1: "filter (\<lambda>c. \<not> isspace c) s = s" using sp by simp
  have f2: "filter formula_char s = s" using assms by simp
  have f3: "filter (\<lambda>c. \<not> isspace c \<and> formula_char c) s = s" using sp assms by simp
  have pm: "prefer_math_chunk s = s"
    by (simp add: prefer_math_chunk_def contains_single n36)
  show ?thesis
    by (simp add: clean_formula_candidate_def Let_def strip_no_space [OF sp]
        replace_absent [OF n42] replace_absent [OF n95] strip_chars_absent [OF n96] pm
        replace_absent [OF n92] remove_latex_commands_absent [OF n92]
        sub_braced_subscript_absent [OF n95] sub_numeric_subscript_absent [OF n95]
        replace_absent [OF n123] replace_absent [OF n125] f1 f2 f3)
qed

text \<open>
  C8. Normalisation is idempotent: cleaning a cleaned string changes nothing, for every
  input string.
\<close>

theorem clean_idempotent:
  "clean_formula_candidate (clean_formula_candidate s) = clean_formula_candidate s"
  by (rule clean_fixes_formula_strings) (rule clean_formula_chars)

section \<open>The extractor\<close>

lemma parse_segment_ok: "record_ok h acc \<Longrightarrow> record_ok h (parse_segment h acc seg)"
  by (auto simp: record_ok_def parse_segment_def valid_candidate_def Let_def)

lemma foldl_parse_segment_ok:
  "record_ok h acc \<Longrightarrow> record_ok h (foldl (parse_segment h) acc segs)"
  by (induction segs arbitrary: acc) (simp_all add: parse_segment_ok)

lemma parse_line_ok: "record_ok h acc \<Longrightarrow> record_ok h (parse_line uni h acc line)"
  by (simp add: parse_line_def Let_def foldl_parse_segment_ok parse_segment_ok)

lemma foldl_parse_line_ok:
  "record_ok h acc \<Longrightarrow> record_ok h (foldl (parse_line uni h) acc ls)"
  by (induction ls arbitrary: acc) (simp_all add: parse_line_ok)

lemma parse_ok: "record_ok h (parse uni raw h)"
  unfolding parse_def by (rule foldl_parse_line_ok) (simp add: record_ok_def)


lemmas extractor_defs =
  py_def parse_def parse_line_def parse_segment_def strip_def isspace_def lstrip_chars_def
  strip_chars_def search_reasoning_def reasoning_at_def word_boundary_def word_char_def
  ci_match_def clean_formula_candidate_def prefer_math_chunk_def is_letter_def is_upper_def
  is_lower_def is_digit_def formula_char_def Let_def

text \<open>
  C1. Scenario 1: for the two-line input whose first line is a reasoning bullet and whose
  second line is the formula in LaTeX, and an empty history, \<open>parse\<close> returns exactly the
  list with the one string Li1.02Fe0.70Mn0.25Mg0.05PO4. The reasoning bullet is skipped by
  the search for the word, and a reasoning bullet holding a formula that would otherwise
  be accepted gives nothing.
\<close>

theorem parse_scenario_1:
  "parse uni (py ''* Reasoning: contains PO_4'' @ [10]
              @ py ''* $Li_{1.02}Fe_{0.70}Mn_{0.25}Mg_{0.05}PO_4$'') []
     = [py ''Li1.02Fe0.70Mn0.25Mg0.05PO4'']
   \<and> search_reasoning uni (py ''* Reasoning: contains PO_4'')
   \<and> parse uni (py ''* Reasoning: Li_{1.02}Fe_{0.70}PO_4'') [] = []"
  by (simp add: extractor_defs)

text \<open>
  C2. For every text and every history, each string returned by \<open>parse\<close> contains Li or Na
  and has at least two element tokens; the input \<open>* $PO_4$\<close> gives the empty list.
\<close>

theorem parse_candidates_valid:
  "(\<forall>c\<in>set (parse uni raw_text h).
      (contains (py ''Li'') c \<or> contains (py ''Na'') c) \<and> 2 \<le> length (findall_elements c))
   \<and> parse uni (py ''* $PO_4$'') h = []"
proof
  show "\<forall>c\<in>set (parse uni raw_text h).
      (contains (py ''Li'') c \<or> contains (py ''Na'') c) \<and> 2 \<le> length (findall_elements c)"
    using parse_ok [of h uni raw_text] by (simp add: record_ok_def valid_candidate_def)
  show "parse uni (py ''* $PO_4$'') h = []"
    by (simp add: extractor_defs)
qed

theorem parse_candidates_valid_witness:
  "py ''Li1.02Fe0.70Mn0.25Mg0.05PO4''
     \<in> set (parse (\<lambda>c. False) (py ''* $Li_{1.02}Fe_{0.70}Mn_{0.25}Mg_{0.05}PO_4$'') [])
   \<and> (contains (py ''Li'') (py ''Li1.02Fe0.70Mn0.25Mg0.05PO4'')
        \<or> contains (py ''Na'') (py ''Li1.02Fe0.70Mn0.25Mg0.05PO4''))
   \<and> 2 \<le> length (findall_elements (py ''Li1.02Fe0.70Mn0.25Mg0.05PO4''))"
proof -
  have mem: "py ''Li1.02Fe0.70Mn0.25Mg0.05PO4''
     \<in> set (parse (\<lambda>c. False) (py ''* $Li_{1.02}Fe_{0.70}Mn_{0.25}Mg_{0.05}PO_4$'') [])"
    by (simp add: extractor_defs)
  from parse_candidates_valid
         [of "\<lambda>c. False" "py ''* $Li_{1.02}Fe_{0.70}Mn_{0.25}Mg_{0.05}PO_4$''" "[]"] mem
  show ?thesis by blast
qed

text \<open>
  C3. For every text and every history, \<open>parse\<close> returns no string twice and no string of
  the history; the input of scenario 1 gives the empty list when the history holds
  Li1.02Fe0.70Mn0.25Mg0.05PO4.
\<close>

theorem parse_novel_distinct:
  "distinct (parse uni raw_text h) \<and> set (parse uni raw_text h) \<inter> set h = {}
   \<and> (py ''Li1.02Fe0.70Mn0.25Mg0.05PO4'' \<in> set h \<longrightarrow>
        parse uni (py ''* Reasoning: contains PO_4'' @ [10]
                   @ py ''* $Li_{1.02}Fe_{0.70}Mn_{0.25}Mg_{0.05}PO_4$'') h = [])"
proof (intro conjI impI)
  show "distinct (parse uni raw_text h)"
    using parse_ok [of h uni raw_text] by (simp add: record_ok_def)
  show "set (parse uni raw_text h) \<inter> set h = {}"
    using parse_ok [of h uni raw_text] by (auto simp: record_ok_def)
  assume "py ''Li1.02Fe0.70Mn0.25Mg0.05PO4'' \<in> set h"
  then show "parse uni (py ''* Reasoning: contains PO_4'' @ [10]
                   @ py ''* $Li_{1.02}Fe_{0.70}Mn_{0.25}Mg_{0.05}PO_4$'') h = []"
    by (simp add: extractor_defs)
qed

theorem parse_novel_distinct_witness:
  "py ''Li1.02Fe0.70Mn0.25Mg0.05PO4'' \<in> set [py ''Li1.02Fe0.70Mn0.25Mg0.05PO4'']
   \<and> parse (\<lambda>c. False) (py ''* Reasoning: contains PO_4'' @ [10]
                   @ py ''* $Li_{1.02}Fe_{0.70}Mn_{0.25}Mg_{0.05}PO_4$'')
        [py ''Li1.02Fe0.70Mn0.25Mg0.05PO4''] = []"
  using parse_novel_distinct
          [of "\<lambda>c. False" "[]" "[py ''Li1.02Fe0.70Mn0.25Mg0.05PO4'']"]
  by simp

section \<open>The generation loop\<close>

lemma while_retry:
  "attempt uni create model api_model t st = (st', None) \<Longrightarrow>
   while_not_received uni create model api_model t st
     = while_not_received uni create model api_model t st'"
  by (subst while_not_received.simps) simp

lemma while_accept:
  "attempt uni create model api_model t st = (st', Some res) \<Longrightarrow>
   while_not_received uni create model api_model t st = Some (st', res)"
  by (subst while_not_received.simps) simp

lemma state_at_pass_history:
  "state_at_pass uni create model api_model t msgs k = Some st \<Longrightarrow> history_battery_list st = []"
proof (induction k arbitrary: st)
  case 0
  then show ?case by (auto simp: initial_state_def)
next
  case (Suc k)
  then show ?case
    by (auto simp: attempt_def Let_def split: option.splits completion.splits if_splits)
qed

lemma two_calls:
  assumes "msgs \<noteq> []" and "parse uni r1 [] = []" and "parse uni r2 [] \<noteq> []"
    and c0: "\<And>req. create 0 req = Content r1" and c1: "\<And>req. create (Suc 0) req = Content r2"
  shows "while_not_received uni create model api_model t (initial_state msgs) =
     Some (\<lparr>messages = append_to_last msgs (exclusion_text (parse uni r1 [])),
            history_battery_list = [],
            sent = [chat_request model api_model msgs t,
                    chat_request model api_model
                      (append_to_last msgs (exclusion_text (parse uni r1 []))) t]\<rparr>,
           r2, parse uni r2 [])"
proof -
  let ?st1 = "\<lparr>messages = append_to_last msgs (exclusion_text (parse uni r1 [])),
            history_battery_list = [],
            sent = [chat_request model api_model msgs t]\<rparr>"
  have a1: "attempt uni create model api_model t (initial_state msgs) = (?st1, None)"
    using assms(1,2) c0 by (simp add: attempt_def Let_def initial_state_def)
  have a2: "attempt uni create model api_model t ?st1 =
     (\<lparr>messages = append_to_last msgs (exclusion_text (parse uni r1 [])),
            history_battery_list = [],
            sent = [chat_request model api_model msgs t,
                    chat_request model api_model
                      (append_to_last msgs (exclusion_text (parse uni r1 []))) t]\<rparr>,
      Some (r2, parse uni r2 []))"
    using assms(3) c1 by (simp add: attempt_def Let_def)
  show ?thesis
    by (simp only: while_retry [OF a1] while_accept [OF a2])
qed


lemma scenario_4_first: "parse uni (py ''LiFePO4'') [] = []"
  by (simp add: extractor_defs)

lemma scenario_4_second: "parse uni (py ''* $LiCoO_2$'') [] = [py ''LiCoO2'']"
  by (simp add: extractor_defs)

lemma exclusion_text_Nil:
  "exclusion_text [] = py ''Please do not generate batteries in this list [].''"
  by (simp add: exclusion_text_def list_repr_def py_def)

lemma default_api_model:
  "normalize_model_for_api empty_environ (configure_openai_client empty_environ default_client) m = m"
  by (simp add: normalize_model_for_api_def configure_openai_client_def empty_environ_def
      default_client_def truthy_def py_or_def is_openrouter_base_def py_def Let_def)

text \<open>
  What the loop does when an extraction is empty. In a state with a non-empty
  conversation, the pass appends to the content of the last message the exclusion
  instruction made from the extraction of the answer under an empty history, leaves the
  earlier messages as they were, and the loop goes on from there. With a model whose first
  answer has an empty extraction and whose later answers have a non-empty one,
  \<open>optimize_batteries_chatgpt\<close> returns after exactly two requests.
\<close>

lemma exclusion_appended_then_retried:
  "(messages st \<noteq> [] \<longrightarrow>
    create (length (sent st)) (chat_request model api_model (messages st) t) = Content raw \<longrightarrow>
    parse uni raw (history_battery_list st) = [] \<longrightarrow>
      attempt uni create model api_model t st =
        (st\<lparr>sent := sent st @ [chat_request model api_model (messages st) t],
            messages := butlast (messages st)
               @ [(last (messages st))\<lparr>content := content (last (messages st))
                                            @ exclusion_text (parse uni raw [])\<rparr>]\<rparr>,
         None)
      \<and> while_not_received uni create model api_model t st =
          while_not_received uni create model api_model t
            (st\<lparr>sent := sent st @ [chat_request model api_model (messages st) t],
                messages := butlast (messages st)
                   @ [(last (messages st))\<lparr>content := content (last (messages st))
                                                @ exclusion_text (parse uni raw [])\<rparr>]\<rparr>))
   \<and> (msgs \<noteq> [] \<longrightarrow> parse uni repeated [] = [] \<longrightarrow> parse uni novel [] \<noteq> [] \<longrightarrow>
        optimize_batteries_chatgpt uni getenv openai (first_then repeated novel) msgs model t =
          Some (\<lparr>messages = butlast msgs
                    @ [(last msgs)\<lparr>content := content (last msgs)
                                        @ exclusion_text (parse uni repeated [])\<rparr>],
                 history_battery_list = [],
                 sent =
                   [chat_request model
                      (normalize_model_for_api getenv (configure_openai_client getenv openai) model)
                      msgs t,
                    chat_request model
                      (normalize_model_for_api getenv (configure_openai_client getenv openai) model)
                      (butlast msgs
                         @ [(last msgs)\<lparr>content := content (last msgs)
                                             @ exclusion_text (parse uni repeated [])\<rparr>]) t]\<rparr>,
                novel, parse uni novel []))"
proof (intro conjI impI)
  assume m: "messages st \<noteq> []"
    and c: "create (length (sent st)) (chat_request model api_model (messages st) t) = Content raw"
    and p: "parse uni raw (history_battery_list st) = []"
  show a: "attempt uni create model api_model t st =
        (st\<lparr>sent := sent st @ [chat_request model api_model (messages st) t],
            messages := butlast (messages st)
               @ [(last (messages st))\<lparr>content := content (last (messages st))
                                            @ exclusion_text (parse uni raw [])\<rparr>]\<rparr>,
         None)"
    using c p m by (simp add: attempt_def Let_def append_to_last_def)
  show "while_not_received uni create model api_model t st =
          while_not_received uni create model api_model t
            (st\<lparr>sent := sent st @ [chat_request model api_model (messages st) t],
                messages := butlast (messages st)
                   @ [(last (messages st))\<lparr>content := content (last (messages st))
                                                @ exclusion_text (parse uni raw [])\<rparr>]\<rparr>)"
    by (rule while_retry [OF a])
next
  assume m: "msgs \<noteq> []" and p1: "parse uni repeated [] = []"
    and p2: "parse uni novel [] \<noteq> []"
  show "optimize_batteries_chatgpt uni getenv openai (first_then repeated novel) msgs model t =
          Some (\<lparr>messages = butlast msgs
                    @ [(last msgs)\<lparr>content := content (last msgs)
                                        @ exclusion_text (parse uni repeated [])\<rparr>],
                 history_battery_list = [],
                 sent =
                   [chat_request model
                      (normalize_model_for_api getenv (configure_openai_client getenv openai) model)
                      msgs t,
                    chat_request model
                      (normalize_model_for_api getenv (configure_openai_client getenv openai) model)
                      (butlast msgs
                         @ [(last msgs)\<lparr>content := content (last msgs)
                                             @ exclusion_text (parse uni repeated [])\<rparr>]) t]\<rparr>,
                novel, parse uni novel [])"
    unfolding optimize_batteries_chatgpt_def Let_def
    using two_calls [where create = "first_then repeated novel", OF m p1 p2]
    by (simp add: first_then_def append_to_last_def)
qed


text \<open>
  C4 says that a response proposing only formulas seen before is refused, that the
  exclusion instruction appended to the last message names the formula of that response,
  and that the loop then returns after a second call. The loop body does this in a state
  whose history holds the formula: the first conjunct runs one pass on the answer
  \<open>* $LiFePO_4$\<close> with LiFePO4 in the history, and the text appended names LiFePO4. But
  \<open>optimize_batteries_chatgpt\<close> starts every invocation with an empty history and never
  adds to it: with a model that answers \<open>* $LiFePO_4$\<close> and then \<open>* $LiCoO_2$\<close>, every
  invocation, also one after a round that already returned LiFePO4, returns LiFePO4 after
  one request and appends nothing. And when the first answer has no bullet, the loop makes
  two requests and the text appended is the instruction for the empty list, which names
  no formula.
\<close>

theorem seen_formula_is_never_named:
  "attempt no_unicode_words constant_model (py ''gpt-4o-mini'') (py ''gpt-4o-mini'') 0
       \<lparr>messages = one_prompt, history_battery_list = [py ''LiFePO4''], sent = []\<rparr> =
     (\<lparr>messages = [\<lparr>role = py ''user'',
                      content = py ''pPlease do not generate batteries in this list [''
                                @ [39] @ py ''LiFePO4'' @ [39] @ py ''].''\<rparr>],
       history_battery_list = [py ''LiFePO4''],
       sent = [\<lparr>req_model = py ''gpt-4o-mini'', req_messages = one_prompt,
                req_temperature = 0, req_frequency_penalty = None\<rparr>]\<rparr>,
      None)
   \<and> optimize_batteries_chatgpt no_unicode_words empty_environ default_client
       (first_then (py ''* $LiFePO_4$'') (py ''* $LiCoO_2$'')) one_prompt (py ''gpt-4o-mini'') 0 =
     Some (\<lparr>messages = one_prompt, history_battery_list = [],
            sent = [\<lparr>req_model = py ''gpt-4o-mini'', req_messages = one_prompt,
                     req_temperature = 0, req_frequency_penalty = None\<rparr>]\<rparr>,
           py ''* $LiFePO_4$'', [py ''LiFePO4''])
   \<and> optimize_batteries_chatgpt no_unicode_words empty_environ default_client
       scenario_4_model one_prompt (py ''gpt-4o-mini'') 0 =
     Some (\<lparr>messages = [\<lparr>role = py ''user'',
                      content = py ''pPlease do not generate batteries in this list [].''\<rparr>],
            history_battery_list = [],
            sent = [\<lparr>req_model = py ''gpt-4o-mini'', req_messages = one_prompt,
                     req_temperature = 0, req_frequency_penalty = None\<rparr>,
                    \<lparr>req_model = py ''gpt-4o-mini'',
                     req_messages = [\<lparr>role = py ''user'',
                        content = py ''pPlease do not generate batteries in this list [].''\<rparr>],
                     req_temperature = 0, req_frequency_penalty = None\<rparr>]\<rparr>,
           py ''* $LiCoO_2$'', [py ''LiCoO2''])
   \<and> \<not> contains (py ''LiFePO4'') (py ''pPlease do not generate batteries in this list [].'')"
proof (intro conjI)
  have m: "one_prompt \<noteq> []" by (simp add: one_prompt_def)
  have ne: "py ''gpt-4o-mini'' \<noteq> py ''chatgpt_3.5''" by (simp add: py_def)
  have p: "parse no_unicode_words (py ''* $LiFePO_4$'') [] = [py ''LiFePO4'']"
    by (simp add: extractor_defs)
  have ph: "parse no_unicode_words (py ''* $LiFePO_4$'') [py ''LiFePO4''] = []"
    by (simp add: extractor_defs)
  have named: "append_to_last one_prompt (exclusion_text [py ''LiFePO4''])
             = [\<lparr>role = py ''user'',
                 content = py ''pPlease do not generate batteries in this list [''
                           @ [39] @ py ''LiFePO4'' @ [39] @ py ''].''\<rparr>]"
    by (simp add: append_to_last_def one_prompt_def exclusion_text_def list_repr_def py_def)
  show "attempt no_unicode_words constant_model (py ''gpt-4o-mini'') (py ''gpt-4o-mini'') 0
       \<lparr>messages = one_prompt, history_battery_list = [py ''LiFePO4''], sent = []\<rparr> =
     (\<lparr>messages = [\<lparr>role = py ''user'',
                      content = py ''pPlease do not generate batteries in this list [''
                                @ [39] @ py ''LiFePO4'' @ [39] @ py ''].''\<rparr>],
       history_battery_list = [py ''LiFePO4''],
       sent = [\<lparr>req_model = py ''gpt-4o-mini'', req_messages = one_prompt,
                req_temperature = 0, req_frequency_penalty = None\<rparr>]\<rparr>,
      None)"
    using m by (simp add: attempt_def Let_def constant_model_def p ph named chat_request_def ne)
  have a: "attempt no_unicode_words (first_then (py ''* $LiFePO_4$'') (py ''* $LiCoO_2$''))
             (py ''gpt-4o-mini'') (py ''gpt-4o-mini'') 0 (initial_state one_prompt) =
     (\<lparr>messages = one_prompt, history_battery_list = [],
       sent = [\<lparr>req_model = py ''gpt-4o-mini'', req_messages = one_prompt,
                req_temperature = 0, req_frequency_penalty = None\<rparr>]\<rparr>,
      Some (py ''* $LiFePO_4$'', [py ''LiFePO4'']))"
    by (simp add: attempt_def Let_def initial_state_def first_then_def p chat_request_def ne)
  show "optimize_batteries_chatgpt no_unicode_words empty_environ default_client
       (first_then (py ''* $LiFePO_4$'') (py ''* $LiCoO_2$'')) one_prompt (py ''gpt-4o-mini'') 0 =
     Some (\<lparr>messages = one_prompt, history_battery_list = [],
            sent = [\<lparr>req_model = py ''gpt-4o-mini'', req_messages = one_prompt,
                     req_temperature = 0, req_frequency_penalty = None\<rparr>]\<rparr>,
           py ''* $LiFePO_4$'', [py ''LiFePO4''])"
    unfolding optimize_batteries_chatgpt_def Let_def default_api_model
    by (simp add: while_accept [OF a])
  have p1: "parse no_unicode_words (py ''LiFePO4'') [] = []" by (rule scenario_4_first)
  have p2: "parse no_unicode_words (py ''* $LiCoO_2$'') [] \<noteq> []"
    by (simp add: scenario_4_second)
  have fin: "append_to_last one_prompt (exclusion_text [])
             = [\<lparr>role = py ''user'',
                 content = py ''pPlease do not generate batteries in this list [].''\<rparr>]"
    by (simp add: append_to_last_def one_prompt_def exclusion_text_Nil py_def)
  show "optimize_batteries_chatgpt no_unicode_words empty_environ default_client
       scenario_4_model one_prompt (py ''gpt-4o-mini'') 0 =
     Some (\<lparr>messages = [\<lparr>role = py ''user'',
                      content = py ''pPlease do not generate batteries in this list [].''\<rparr>],
            history_battery_list = [],
            sent = [\<lparr>req_model = py ''gpt-4o-mini'', req_messages = one_prompt,
                     req_temperature = 0, req_frequency_penalty = None\<rparr>,
                    \<lparr>req_model = py ''gpt-4o-mini'',
                     req_messages = [\<lparr>role = py ''user'',
                        content = py ''pPlease do not generate batteries in this list [].''\<rparr>],
                     req_temperature = 0, req_frequency_penalty = None\<rparr>]\<rparr>,
           py ''* $LiCoO_2$'', [py ''LiCoO2''])"
    unfolding optimize_batteries_chatgpt_def Let_def default_api_model
    using two_calls [where create = scenario_4_model and uni = no_unicode_words, OF m p1 p2]
    by (simp add: scenario_4_model_def scenario_4_first scenario_4_second fin chat_request_def ne)
  show "\<not> contains (py ''LiFePO4'') (py ''pPlease do not generate batteries in this list [].'')"
    by (simp add: py_def)
qed

text \<open>
  C5. The history list starts empty and is empty at the start of every pass of the loop, so
  extraction under the history equals extraction under the empty history; whenever the
  exclusion branch runs, the unconstrained list is empty and the text appended is the
  instruction for the empty list.
\<close>

theorem history_stays_empty:
  "history_battery_list (initial_state msgs) = []
   \<and> (state_at_pass uni create model api_model t msgs k = Some st \<longrightarrow>
        history_battery_list st = []
        \<and> parse uni raw (history_battery_list st) = parse uni raw []
        \<and> (create (length (sent st)) (chat_request model api_model (messages st) t) = Content raw
             \<longrightarrow> parse uni raw (history_battery_list st) = [] \<longrightarrow> messages st \<noteq> [] \<longrightarrow>
             parse uni raw [] = []
             \<and> attempt uni create model api_model t st =
                 (st\<lparr>sent := sent st @ [chat_request model api_model (messages st) t],
                     messages := append_to_last (messages st)
                        (py ''Please do not generate batteries in this list [].'')\<rparr>,
                  None)))"
proof (intro conjI impI)
  show "history_battery_list (initial_state msgs) = []"
    by (simp add: initial_state_def)
next
  assume r: "state_at_pass uni create model api_model t msgs k = Some st"
  then show h: "history_battery_list st = []" by (rule state_at_pass_history)
  then show "parse uni raw (history_battery_list st) = parse uni raw []" by simp
next
  assume r: "state_at_pass uni create model api_model t msgs k = Some st"
    and p: "parse uni raw (history_battery_list st) = []"
  from r have "history_battery_list st = []" by (rule state_at_pass_history)
  with p show "parse uni raw [] = []" by simp
next
  assume r: "state_at_pass uni create model api_model t msgs k = Some st"
    and c: "create (length (sent st)) (chat_request model api_model (messages st) t) = Content raw"
    and p: "parse uni raw (history_battery_list st) = []"
    and m: "messages st \<noteq> []"
  from r have h: "history_battery_list st = []" by (rule state_at_pass_history)
  with p have e: "parse uni raw [] = []" by simp
  show "attempt uni create model api_model t st =
                 (st\<lparr>sent := sent st @ [chat_request model api_model (messages st) t],
                     messages := append_to_last (messages st)
                        (py ''Please do not generate batteries in this list [].'')\<rparr>,
                  None)"
    using c p m e by (simp add: attempt_def Let_def exclusion_text_Nil)
qed

text \<open>
  An instance: the model never proposes a bullet, and the state is the one the second
  pass starts in, after one retry.
\<close>

theorem history_stays_empty_witness:
  "state_at_pass no_unicode_words (first_then (py ''LiFePO4'') (py ''LiCoO2''))
     (py ''gpt-4o-mini'') (py ''gpt-4o-mini'') 0 one_prompt 1 =
     Some \<lparr>messages = [\<lparr>role = py ''user'',
                      content = py ''pPlease do not generate batteries in this list [].''\<rparr>],
           history_battery_list = [],
           sent = [chat_request (py ''gpt-4o-mini'') (py ''gpt-4o-mini'') one_prompt 0]\<rparr>
   \<and> attempt no_unicode_words (first_then (py ''LiFePO4'') (py ''LiCoO2''))
       (py ''gpt-4o-mini'') (py ''gpt-4o-mini'') 0
       \<lparr>messages = [\<lparr>role = py ''user'',
                      content = py ''pPlease do not generate batteries in this list [].''\<rparr>],
        history_battery_list = [],
        sent = [chat_request (py ''gpt-4o-mini'') (py ''gpt-4o-mini'') one_prompt 0]\<rparr> =
     (\<lparr>messages = [\<lparr>role = py ''user'',
           content = py ''pPlease do not generate batteries in this list [].''
                     @ py ''Please do not generate batteries in this list [].''\<rparr>],
       history_battery_list = [],
       sent = [chat_request (py ''gpt-4o-mini'') (py ''gpt-4o-mini'') one_prompt 0,
               chat_request (py ''gpt-4o-mini'') (py ''gpt-4o-mini'')
                 [\<lparr>role = py ''user'',
                   content = py ''pPlease do not generate batteries in this list [].''\<rparr>] 0]\<rparr>,
      None)"
proof -
  let ?st1 = "\<lparr>messages = [\<lparr>role = py ''user'',
                      content = py ''pPlease do not generate batteries in this list [].''\<rparr>],
           history_battery_list = [],
           sent = [chat_request (py ''gpt-4o-mini'') (py ''gpt-4o-mini'') one_prompt 0]\<rparr>"
  have p0: "parse no_unicode_words (py ''LiFePO4'') [] = []" by (rule scenario_4_first)
  have p1: "parse no_unicode_words (py ''LiCoO2'') [] = []" by (simp add: extractor_defs)
  have fin: "append_to_last one_prompt (exclusion_text [])
             = [\<lparr>role = py ''user'',
                 content = py ''pPlease do not generate batteries in this list [].''\<rparr>]"
    by (simp add: append_to_last_def one_prompt_def exclusion_text_Nil py_def)
  have m0: "one_prompt \<noteq> []" by (simp add: one_prompt_def)
  have r: "state_at_pass no_unicode_words (first_then (py ''LiFePO4'') (py ''LiCoO2''))
     (py ''gpt-4o-mini'') (py ''gpt-4o-mini'') 0 one_prompt 1 = Some ?st1"
    using m0 by (simp add: attempt_def Let_def initial_state_def first_then_def p0 fin)
  have c: "first_then (py ''LiFePO4'') (py ''LiCoO2'') (length (sent ?st1))
             (chat_request (py ''gpt-4o-mini'') (py ''gpt-4o-mini'') (messages ?st1) 0)
           = Content (py ''LiCoO2'')"
    by (simp add: first_then_def)
  have p: "parse no_unicode_words (py ''LiCoO2'') (history_battery_list ?st1) = []"
    by (simp add: p1)
  have m: "messages ?st1 \<noteq> []" by simp
  from history_stays_empty
         [where st = ?st1 and uni = no_unicode_words
            and create = "first_then (py ''LiFePO4'') (py ''LiCoO2'')"
            and model = "py ''gpt-4o-mini''" and api_model = "py ''gpt-4o-mini''" and t = 0
            and raw = "py ''LiCoO2''" and msgs = one_prompt and k = 1]
       r c p m
  show ?thesis
    by (simp add: append_to_last_def)
qed

text \<open>
  C9, at the nickname chatgpt\_3.5: \<open>optimize_batteries\<close> passes the model gpt-3.5-turbo to
  \<open>optimize_batteries_chatgpt\<close>, which compares it with the nickname, so the one request
  sent carries no frequency penalty.
\<close>

theorem chatgpt_3_5_request_has_no_frequency_penalty:
  "optimize_batteries uni getenv openai constant_model open_source msgs (py ''chatgpt_3.5'') t =
     Some (\<lparr>messages = msgs, history_battery_list = [],
            sent = [\<lparr>req_model = normalize_model_for_api getenv
                                    (configure_openai_client getenv openai) (py ''gpt-3.5-turbo''),
                     req_messages = msgs, req_temperature = t,
                     req_frequency_penalty = None\<rparr>]\<rparr>,
           py ''* $LiFePO_4$'', [py ''LiFePO4''])"
proof -
  have ne: "py ''gpt-3.5-turbo'' \<noteq> py ''chatgpt_3.5''" by (simp add: py_def)
  have p: "parse uni (py ''* $LiFePO_4$'') [] = [py ''LiFePO4'']"
    by (simp add: extractor_defs)
  have a: "attempt uni constant_model (py ''gpt-3.5-turbo'') api t (initial_state msgs) =
     (\<lparr>messages = msgs, history_battery_list = [],
       sent = [\<lparr>req_model = api, req_messages = msgs, req_temperature = t,
                req_frequency_penalty = None\<rparr>]\<rparr>,
      Some (py ''* $LiFePO_4$'', [py ''LiFePO4'']))" for api
    by (simp add: attempt_def Let_def initial_state_def constant_model_def p chat_request_def ne)
  show ?thesis
    by (simp add: optimize_batteries_def optimize_batteries_chatgpt_def Let_def
        while_accept [OF a])
qed

section \<open>The decision engine\<close>

lemma times_one_id: "times_one x = x"
  by (cases x) simp_all




lemma decide_pairs_loop_map:
  assumes "task_id = 101 \<or> task_id = 102"
    and "calc input_formula task_id = Inr b"
  shows "decide_pairs_loop calc input_formula task_id acc outs =
         Inr (acc @ map (\<lambda>out. case calc out task_id of
                                  Inl e \<Rightarrow> (out, NaN, False)
                                | Inr c \<Rightarrow> (out, c, capacity_gt c b)) outs)"
  using assms
  by (induction outs arbitrary: acc)
     (auto simp: decide_one_pair_def times_one_id split: sum.splits)

text \<open>
  C7. With a valid task selector and the baseline scored without fault, a fault while
  scoring the candidate is not propagated: \<open>decide_one_pair\<close> returns not-a-number and a
  false verdict. \<open>decide_pairs\<close> returns one record per candidate, in the order of the
  input, each candidate recovered on its own.
\<close>

theorem candidate_fault_recovered:
  assumes "task_id = 101 \<or> task_id = 102"
    and "calc input_formula task_id = Inr b"
  shows "(calc output_formula task_id = Inl e \<longrightarrow>
            decide_one_pair calc input_formula output_formula task_id = Inr (b, NaN, False))
         \<and> decide_pairs calc input_formula output_formula_list task_id =
             Inr (map (\<lambda>out. case calc out task_id of
                                 Inl e \<Rightarrow> (out, NaN, False)
                               | Inr c \<Rightarrow> (out, c, capacity_gt c b)) output_formula_list)
         \<and> (\<exists>answers. decide_pairs calc input_formula output_formula_list task_id = Inr answers
               \<and> length answers = length output_formula_list
               \<and> map fst answers = output_formula_list)"
proof -
  have loop: "decide_pairs calc input_formula output_formula_list task_id =
             Inr (map (\<lambda>out. case calc out task_id of
                                 Inl e \<Rightarrow> (out, NaN, False)
                               | Inr c \<Rightarrow> (out, c, capacity_gt c b)) output_formula_list)"
    unfolding decide_pairs_def
    using assms decide_pairs_loop_map
            [where task_id = task_id and calc = calc and input_formula = input_formula
               and b = b and acc = "[]" and outs = output_formula_list]
    by simp
  have order: "map fst (map (\<lambda>out. case calc out task_id of
                                 Inl e \<Rightarrow> (out, NaN, False)
                               | Inr c \<Rightarrow> (out, c, capacity_gt c b)) output_formula_list)
               = output_formula_list"
    by (induction output_formula_list) (auto split: sum.splits)
  show ?thesis
    using assms loop order by (auto simp: decide_one_pair_def)
qed

theorem candidate_fault_recovered_witness:
  "decide_one_pair two_formula_capacity (py ''LiFePO4'') (py ''PO4'') 101
     = Inr (Finite 170, NaN, False)
   \<and> decide_pairs two_formula_capacity (py ''LiFePO4'') [py ''PO4'', py ''LiCoO2''] 101
     = Inr [(py ''PO4'', NaN, False), (py ''LiCoO2'', Finite 274, True)]"
proof -
  have t: "(101::int) = 101 \<or> (101::int) = 102" by simp
  have b: "two_formula_capacity (py ''LiFePO4'') 101 = Inr (Finite 170)"
    by (simp add: two_formula_capacity_def py_def)
  have f: "two_formula_capacity (py ''PO4'') 101 = Inl ()"
    by (simp add: two_formula_capacity_def py_def)
  have c: "two_formula_capacity (py ''LiCoO2'') 101 = Inr (Finite 274)"
    by (simp add: two_formula_capacity_def py_def)
  from candidate_fault_recovered
         [where task_id = "101" and calc = two_formula_capacity
            and input_formula = "py ''LiFePO4''" and b = "Finite 170"
            and output_formula = "py ''PO4''" and e = "()"
            and output_formula_list = "[py ''PO4'', py ''LiCoO2'']"]
       t b f c
  show ?thesis by simp
qed

section \<open>The remote lookup\<close>

text \<open>
  C10, as amended. When the import of the client library at the top of \<open>MP_search\<close>
  succeeds, a fault of any kind in the lookup makes \<open>MP_search\<close> return false, it
  always returns a value, and it returns true exactly when the lookup succeeds with at
  least one document.
\<close>

theorem MP_search_best_effort:
  assumes "importable"
  shows "(lookup formula = Inl e \<longrightarrow> MP_search importable lookup formula = Inr False)
         \<and> (\<exists>found. MP_search importable lookup formula = Inr found)
         \<and> (MP_search importable lookup formula = Inr True
              \<longleftrightarrow> (\<exists>docs. lookup formula = Inr docs \<and> 1 \<le> docs))"
  using assms by (auto simp: MP_search_def split: sum.splits)

theorem MP_search_best_effort_witness:
  "MP_search True failing_lookup (py ''LiFePO4'') = Inr False"
proof -
  have f: "failing_lookup (py ''LiFePO4'') = Inl ()" by (simp add: failing_lookup_def)
  from MP_search_best_effort [of True failing_lookup "py ''LiFePO4''" "()"] f
  show ?thesis by simp
qed

text \<open>
  C10, as stated, fails: the import is outside \<open>try\<close>, so when the client library
  cannot be imported \<open>MP_search\<close> raises instead of returning false.
\<close>

theorem MP_search_import_fault_raises:
  "MP_search False failing_lookup (py ''LiFePO4'') = Inl ImportError"
  by (simp add: MP_search_def)

end
